theory Spec2Isabelle
  imports Complex_Main
begin

unbundle bit_operations_syntax

section \<open>CATCH: the calibrator hunter of \<open>catch.py\<close>\<close>

text \<open>
  The program has two modes. \<open>cal_finder\<close> (discovery) searches four catalogues around a
  science target and writes the table of stars that survive every stage. \<open>cal_checker\<close>
  (verification) looks one named star up in the same four catalogues and keeps a tally,
  \<open>check_pass_count\<close>, from which the star is classified.

  Conventions of the embedding:
  \<^item> a catalogue table is the list of its rows, a row is a record of the columns the
    program asks for; the \<open>TableList\<close> a query returns is a list of tables (empty when the
    catalogue has nothing, otherwise the program reads its first table);
  \<^item> magnitudes, diameters and velocities are \<open>real\<close>; the flag columns of the Kervella and
    MDFC catalogues are \<open>int\<close>; a Gaia cell the catalogue leaves empty (\<open>np.ma.masked\<close>) is
    \<open>None\<close>. The cells of the JSDC, Kervella and MDFC rows that the program compares are
    taken to be filled in;
  \<^item> \<open>exit(...)\<close> and the exceptions of indexing, of the truth value of an array and of
    the table writer are values of type \<open>error\<close>.
\<close>

subsection \<open>Errors\<close>

datatype exit_message =
    NotFoundInSimbad
  | OutsideDeclinationLimits
  | NoCalibratorsInJSDC
  | NoCalibratorsInGaiaDR3
  | NoCalibratorsInKervella
  | NoCalibratorsInMDFC
  | NotFoundInGaiaDR3

datatype error =
    Exit exit_message
  | IndexError
  | ValueError
  | WriteFailed

subsection \<open>Catalogue rows\<close>

record simbad_row =
  simbad_ra :: real
  simbad_dec :: real
  simbad_V :: real

record jmmc_row =
  Name :: string
  jmmc_r :: real
  jmmc_RAJ2000 :: real
  jmmc_DEJ2000 :: real
  SpType :: string
  Vmag :: real
  Rmag :: real
  Hmag :: real
  Kmag :: real
  UDDH :: real
  UDDK :: real

record gaia_cols =
  IPDfmp :: "real option"
  RUWE :: "real option"
  RVamp :: "real option"
  Vbroad :: "real option"

record gaia_row = gaia_cols +
  gaia_RAJ2000 :: real
  gaia_DEJ2000 :: real
  gaia_r :: real
  gaia_q :: int

record kervella_cols =
  DMS :: int
  W :: int
  BinH :: int
  BinG2 :: int

record kervella_row = kervella_cols +
  kervella_RAJ2000 :: real
  kervella_DEJ2000 :: real
  kervella_Name :: string
  kervella_q :: int

record cruzalebes_cols =
  Diam_GAIA :: real
  CalFlag :: int
  IRflag :: int

record cruzalebes_row = cruzalebes_cols +
  cruzalebes_q :: int

subsection \<open>Masked cells\<close>

text \<open>
  \<open>x is np.ma.masked\<close>, and the truth value of \<open>x > t\<close> for a cell that may be masked:
  the comparison of the masked constant is masked again, and \<open>bool\<close> of it is \<open>False\<close>.
\<close>

definition is_masked :: "'a option \<Rightarrow> bool" where
  "is_masked x = (x = None)"

definition gt :: "real option \<Rightarrow> real \<Rightarrow> bool" where
  "gt x t = (case x of None \<Rightarrow> False | Some v \<Rightarrow> v > t)"

section \<open>Verification mode: \<open>cal_checker\<close>\<close>

datatype message =
    FailsJSDC | VmagAbove9 | HmagAbove6_4 | UDDHAbove0_5 | PassesJSDC | NotFoundInJSDC
  | CompanionsWarning | CompanionsShown
  | NoVbroadWarning | FailsGaia | IPDfmpAbove2 | RUWEAbove1_4 | VbroadAbove100 | PassesGaia
  | FailsKervella | DMSNonzero | WNonzero | BinHNonzero | BinG2Nonzero | PassesKervella
  | NotFoundInKervella
  | FailsMDFC | CalFlagNonzero | IRflagIs7 | PassesMDFC | NotFoundInMDFC

record checker_state =
  check_pass_count :: int
  printed :: "message list"

definition say :: "message \<Rightarrow> checker_state \<Rightarrow> checker_state" where
  "say m st = st\<lparr>printed := printed st @ [m]\<rparr>"

definition say_if :: "bool \<Rightarrow> message \<Rightarrow> checker_state \<Rightarrow> checker_state" where
  "say_if b m st = (if b then say m st else st)"

definition subtract :: "int \<Rightarrow> checker_state \<Rightarrow> checker_state" where
  "subtract n st = st\<lparr>check_pass_count := check_pass_count st - n\<rparr>"

subsection \<open>JSDC (lines 229 to 250)\<close>

text \<open>
  The condition of line 234 is an array over the rows of the table: its truth value is
  that of its one element, and Python raises \<open>ValueError\<close> for a table of several rows.
  The \<open>print\<close> of line 232 reads row 0 first, an \<open>IndexError\<close> on a table without rows.
\<close>

definition jmmc_check :: "jmmc_row list list \<Rightarrow> checker_state \<Rightarrow> error + checker_state" where
  "jmmc_check jmmc_result st =
     (case jmmc_result of
        [] \<Rightarrow> Inr (subtract 1 (say NotFoundInJSDC st))
      | tbl # _ \<Rightarrow>
          (case tbl of
             [] \<Rightarrow> Inl IndexError
           | [r] \<Rightarrow>
               if Vmag r > 9 \<or> Hmag r > 6.4 \<or> UDDH r > 0.5
               then Inr (say_if (UDDH r > 0.5) UDDHAbove0_5
                        (say_if (Hmag r > 6.4) HmagAbove6_4
                        (say_if (Vmag r > 9) VmagAbove9
                        (subtract 1 (say FailsJSDC st)))))
               else Inr (say PassesJSDC st)
           | _ \<Rightarrow> Inl ValueError))"

subsection \<open>Gaia DR3 (lines 259 to 296)\<close>

definition gaia_companions :: "bool \<Rightarrow> gaia_row list \<Rightarrow> checker_state \<Rightarrow> checker_state" where
  "gaia_companions gaia_comp_check tbl st =
     (if length tbl > 1
      then (let st1 = say CompanionsWarning st
            in if gaia_comp_check then say CompanionsShown (subtract 1 st1) else st1)
      else st)"

definition gaia_thresholds :: "gaia_row \<Rightarrow> checker_state \<Rightarrow> checker_state" where
  "gaia_thresholds r st =
     (if is_masked (Vbroad r)
      then subtract 5 (say NoVbroadWarning st)
      else if (\<not> is_masked (IPDfmp r) \<and> gt (IPDfmp r) 2)
              \<or> (\<not> is_masked (RUWE r) \<and> gt (RUWE r) 1.4)
              \<or> (\<not> is_masked (Vbroad r) \<and> gt (Vbroad r) 100)
      then (let st1 = subtract 1 (say FailsGaia st);
                st2 = say_if (gt (IPDfmp r) 2) IPDfmpAbove2 st1;
                st3 = say_if (gt (RUWE r) 1.4) RUWEAbove1_4 st2
            in if gt (Vbroad r) 100 then say VbroadAbove100 (subtract 5 st3) else st3)
      else say PassesGaia st)"

definition gaia_check :: "bool \<Rightarrow> gaia_row list list \<Rightarrow> checker_state \<Rightarrow> error + checker_state" where
  "gaia_check gaia_comp_check gaia_result st =
     (case gaia_result of
        [] \<Rightarrow> Inl (Exit NotFoundInGaiaDR3)
      | tbl # _ \<Rightarrow>
          (let st1 = gaia_companions gaia_comp_check tbl st
           in case tbl of
                [] \<Rightarrow> Inl IndexError
              | r # _ \<Rightarrow> Inr (gaia_thresholds r st1)))"

subsection \<open>Kervella et al. 2019 (lines 302 to 325)\<close>

text \<open>
  In line 306 the last disjunct is not parenthesised, and \<open>|\<close> binds tighter than \<open>!=\<close>:
  the condition is \<open>((DMS != 0) | (W != 0) | (BinH != 0) | BinG2) != 0\<close>, the bitwise
  disjunction of a truth value, read as 0 or 1, with the integer \<open>BinG2\<close>.
\<close>

definition kervella_fails :: "kervella_row \<Rightarrow> bool" where
  "kervella_fails r =
     ((of_bool (DMS r \<noteq> 0 \<or> W r \<noteq> 0 \<or> BinH r \<noteq> 0) OR BinG2 r) \<noteq> 0)"

definition kervella_check :: "kervella_row list list \<Rightarrow> checker_state \<Rightarrow> error + checker_state" where
  "kervella_check kervella_result st =
     (case kervella_result of
        [] \<Rightarrow> Inr (subtract 1 (say NotFoundInKervella st))
      | tbl # _ \<Rightarrow>
          (case tbl of
             [] \<Rightarrow> Inl IndexError
           | [r] \<Rightarrow>
               if kervella_fails r
               then Inr (say_if (BinG2 r \<noteq> 0) BinG2Nonzero
                        (say_if (BinH r \<noteq> 0) BinHNonzero
                        (say_if (W r \<noteq> 0) WNonzero
                        (say_if (DMS r \<noteq> 0) DMSNonzero
                        (subtract 5 (say FailsKervella st))))))
               else Inr (say PassesKervella st)
           | _ \<Rightarrow> Inl ValueError))"

subsection \<open>Cruzalebes et al. 2019, MDFC (lines 333 to 351)\<close>

definition cruzalebes_check ::
  "cruzalebes_row list list \<Rightarrow> checker_state \<Rightarrow> error + checker_state" where
  "cruzalebes_check cruzalebes_result st =
     (case cruzalebes_result of
        [] \<Rightarrow> Inr (subtract 1 (say NotFoundInMDFC st))
      | tbl # _ \<Rightarrow>
          (case tbl of
             [] \<Rightarrow> Inl IndexError
           | [r] \<Rightarrow>
               if CalFlag r \<noteq> 0 \<or> IRflag r = 7
               then Inr (say_if (IRflag r = 7) IRflagIs7
                        (say_if (CalFlag r \<noteq> 0) CalFlagNonzero
                        (subtract 1 (say FailsMDFC st))))
               else Inr (say PassesMDFC st)
           | _ \<Rightarrow> Inl ValueError))"

subsection \<open>The classification (lines 354 to 362)\<close>

datatype verdict = Ideal | Usable | NotViable

definition classify :: "int \<Rightarrow> int \<Rightarrow> verdict" where
  "classify count init_count =
     (if real_of_int count / real_of_int init_count = 1 then Ideal
      else if real_of_int count / real_of_int init_count < 1
              \<and> real_of_int count / real_of_int init_count \<ge> 0.7 then Usable
      else NotViable)"

subsection \<open>The whole check\<close>

text \<open>
  The answers of the name resolver and of the four catalogues to the queries that
  \<open>cal_checker\<close> sends for one star name.
\<close>

record checker_input =
  simbad_answer :: "simbad_row list"
  jmmc_answer :: "jmmc_row list list"
  gaia_answer :: "gaia_row list list"
  kervella_answer :: "kervella_row list list"
  cruzalebes_answer :: "cruzalebes_row list list"

record checker_result =
  score :: int
  full_score :: int
  outcome :: verdict
  transcript :: "message list"

definition init_check_pass_count :: "bool \<Rightarrow> int" where
  "init_check_pass_count gaia_comp_check = (if gaia_comp_check then 5 else 4)"

definition simbad_check :: "simbad_row list \<Rightarrow> error + simbad_row" where
  "simbad_check star_details_table =
     (case star_details_table of
        [] \<Rightarrow> Inl (Exit NotFoundInSimbad)
      | s # _ \<Rightarrow> if simbad_dec s \<le> -25 then Inl (Exit OutsideDeclinationLimits) else Inr s)"

definition cal_checker :: "bool \<Rightarrow> checker_input \<Rightarrow> error + checker_result" where
  "cal_checker gaia_comp_check inp =
     (case simbad_check (simbad_answer inp) of
        Inl e \<Rightarrow> Inl e
      | Inr _ \<Rightarrow>
     (case jmmc_check (jmmc_answer inp)
             \<lparr>check_pass_count = init_check_pass_count gaia_comp_check, printed = []\<rparr> of
        Inl e \<Rightarrow> Inl e
      | Inr st1 \<Rightarrow>
     (case gaia_check gaia_comp_check (gaia_answer inp) st1 of
        Inl e \<Rightarrow> Inl e
      | Inr st2 \<Rightarrow>
     (case kervella_check (kervella_answer inp) st2 of
        Inl e \<Rightarrow> Inl e
      | Inr st3 \<Rightarrow>
     (case cruzalebes_check (cruzalebes_answer inp) st3 of
        Inl e \<Rightarrow> Inl e
      | Inr st4 \<Rightarrow>
          Inr \<lparr>score = check_pass_count st4,
               full_score = init_check_pass_count gaia_comp_check,
               outcome = classify (check_pass_count st4)
                                  (init_check_pass_count gaia_comp_check),
               transcript = printed st4\<rparr>)))))"

section \<open>Discovery mode: \<open>cal_finder\<close>\<close>

subsection \<open>Column filters\<close>

text \<open>
  The constraints that the program sends with a query, as in
  \<open>column_filters={"Vmag":"<9.0", "Hmag":"<=6.4", "UDDH":"<0.4", "_DEJ2000":">-25"}\<close>.
  The catalogue service returns the rows that meet every constraint; a row whose cell is
  empty meets no constraint on that column.
\<close>

datatype constraint = Lt real | Le real | Eq real | Gt real

fun holds :: "constraint \<Rightarrow> real \<Rightarrow> bool" where
  "holds (Lt t) v = (v < t)"
| "holds (Le t) v = (v \<le> t)"
| "holds (Eq t) v = (v = t)"
| "holds (Gt t) v = (v > t)"

definition accepts ::
  "(string \<Rightarrow> 'row \<Rightarrow> real option) \<Rightarrow> (string \<times> constraint) list \<Rightarrow> 'row \<Rightarrow> bool" where
  "accepts column column_filters row =
     list_all (\<lambda>(name, c). case column name row of None \<Rightarrow> False | Some v \<Rightarrow> holds c v)
       column_filters"

definition jmmc_column :: "string \<Rightarrow> jmmc_row \<Rightarrow> real option" where
  "jmmc_column name r =
     (if name = ''Vmag'' then Some (Vmag r)
      else if name = ''Rmag'' then Some (Rmag r)
      else if name = ''Hmag'' then Some (Hmag r)
      else if name = ''Kmag'' then Some (Kmag r)
      else if name = ''UDDH'' then Some (UDDH r)
      else if name = ''UDDK'' then Some (UDDK r)
      else if name = ''_RAJ2000'' then Some (jmmc_RAJ2000 r)
      else if name = ''_DEJ2000'' then Some (jmmc_DEJ2000 r)
      else if name = ''_r'' then Some (jmmc_r r)
      else None)"

definition gaia_column :: "string \<Rightarrow> gaia_row \<Rightarrow> real option" where
  "gaia_column name r =
     (if name = ''IPDfmp'' then IPDfmp r
      else if name = ''RUWE'' then RUWE r
      else if name = ''RVamp'' then RVamp r
      else if name = ''Vbroad'' then Vbroad r
      else if name = ''_RAJ2000'' then Some (gaia_RAJ2000 r)
      else if name = ''_DEJ2000'' then Some (gaia_DEJ2000 r)
      else if name = ''_r'' then Some (gaia_r r)
      else None)"

definition kervella_column :: "string \<Rightarrow> kervella_row \<Rightarrow> real option" where
  "kervella_column name r =
     (if name = ''DMS'' then Some (real_of_int (DMS r))
      else if name = ''W'' then Some (real_of_int (W r))
      else if name = ''BinH'' then Some (real_of_int (BinH r))
      else if name = ''BinG2'' then Some (real_of_int (BinG2 r))
      else if name = ''_RAJ2000'' then Some (kervella_RAJ2000 r)
      else if name = ''_DEJ2000'' then Some (kervella_DEJ2000 r)
      else None)"

definition cruzalebes_column :: "string \<Rightarrow> cruzalebes_row \<Rightarrow> real option" where
  "cruzalebes_column name r =
     (if name = ''Diam-GAIA'' then Some (Diam_GAIA r)
      else if name = ''CalFlag'' then Some (real_of_int (CalFlag r))
      else if name = ''IRflag'' then Some (real_of_int (IRflag r))
      else None)"

definition jmmc_filters :: "(string \<times> constraint) list" where
  "jmmc_filters = [(''Vmag'', Lt 9.0), (''Hmag'', Le 6.4), (''UDDH'', Lt 0.4), (''_DEJ2000'', Gt (-25))]"

definition gaia_filters :: "(string \<times> constraint) list" where
  "gaia_filters = [(''IPDfmp'', Lt 2), (''RUWE'', Lt 1.4), (''Vbroad'', Lt 100)]"

definition kervella_filters :: "(string \<times> constraint) list" where
  "kervella_filters = [(''DMS'', Eq 0), (''W'', Eq 0), (''BinH'', Eq 0), (''BinG2'', Eq 0)]"

definition cruzalebes_filters :: "(string \<times> constraint) list" where
  "cruzalebes_filters = [(''CalFlag'', Eq 0), (''IRflag'', Eq 0)]"

text \<open>
  \<open>query_region\<close>: of the rows that the catalogue holds within the search radius
  (\<open>found\<close>), the service returns those that meet the column filters, up to
  \<open>ROW_LIMIT\<close> rows (no limit when it is negative); the \<open>TableList\<close> is empty when no row
  is left.
\<close>

definition query_region ::
  "(string \<Rightarrow> 'row \<Rightarrow> real option) \<Rightarrow> int \<Rightarrow> (string \<times> constraint) list \<Rightarrow> 'row list
     \<Rightarrow> 'row list list" where
  "query_region column ROW_LIMIT column_filters found =
     (let rows = filter (accepts column column_filters) found;
          rows' = (if ROW_LIMIT < 0 then rows else take (nat ROW_LIMIT) rows)
      in if rows' = [] then [] else [rows'])"

subsection \<open>Table operations\<close>

text \<open>
  \<open>column[ind]\<close> and \<open>table[ind]\<close> for an array of integers: every index is looked up as
  Python does, a negative one counted from the end, and one out of range raises.
\<close>

definition np_index :: "'a list \<Rightarrow> int \<Rightarrow> error + 'a" where
  "np_index xs i =
     (let n = int (length xs); j = (if i < 0 then i + n else i)
      in if 0 \<le> j \<and> j < n then Inr (xs ! nat j) else Inl IndexError)"

fun np_take :: "'a list \<Rightarrow> int list \<Rightarrow> error + 'a list" where
  "np_take xs [] = Inr []"
| "np_take xs (i # inds) =
     (case np_index xs i of
        Inl e \<Rightarrow> Inl e
      | Inr x \<Rightarrow> (case np_take xs inds of Inl e \<Rightarrow> Inl e | Inr ys \<Rightarrow> Inr (x # ys)))"

text \<open>\<open>hstack\<close> of two tables of the same length puts their rows side by side.\<close>

definition hstack :: "'a list \<Rightarrow> 'b list \<Rightarrow> ('a \<times> 'b) list" where
  "hstack xs ys = zip xs ys"

text \<open>\<open>collections.Counter\<close>: the items in the order of their first occurrence, with counts.\<close>

fun counter_add :: "'a \<Rightarrow> ('a \<times> nat) list \<Rightarrow> ('a \<times> nat) list" where
  "counter_add x [] = [(x, 1)]"
| "counter_add x ((y, n) # c) = (if x = y then (y, n + 1) # c else (y, n) # counter_add x c)"

definition Counter :: "'a list \<Rightarrow> ('a \<times> nat) list" where
  "Counter xs = foldl (\<lambda>c x. counter_add x c) [] xs"

subsection \<open>The catalogues and the pipeline\<close>

type_synonym first_row = "jmmc_row \<times> gaia_cols"
type_synonym second_row = "first_row \<times> kervella_cols"
type_synonym fcct_row = "second_row \<times> cruzalebes_cols"

text \<open>
  What lies outside the program: the answer of SIMBAD for the target, the rows each
  catalogue holds around the positions of a reference table (each with \<open>_q\<close>, the place
  of its reference row counted from 1), the row limit that a new \<open>Vizier\<close> object starts
  with, and whether the table writer accepts a table. The writer of line 173 is the
  fixed-width writer of astropy: it takes the width of a column as the maximum over the
  rows of the table, so that it raises on a table without rows, before any file is
  opened.
\<close>

record catalogues =
  simbad_object :: "simbad_row list"
  jsdc_within_10d :: "jmmc_row list"
  gaia_within_10s :: "jmmc_row list \<Rightarrow> gaia_row list"
  gaia_neighbors :: "real \<Rightarrow> gaia_row list \<Rightarrow> gaia_row list"
  kervella_within_10s :: "gaia_row list \<Rightarrow> kervella_row list"
  mdfc_within_10s :: "kervella_row list \<Rightarrow> cruzalebes_row list"
  conf_row_limit :: int
  writer_accepts :: "fcct_row list \<Rightarrow> bool"

text \<open>
  Lines 100 to 113: the stars with more than one Gaia source within the radius are
  removed. The condition \<open>if gaia_comp_check:\<close> is false for \<open>None\<close> and for a radius
  of 0, true for every other number.
\<close>

definition removal_list :: "gaia_row list \<Rightarrow> int list" where
  "removal_list neighbors =
     map fst (filter (\<lambda>(item, count). count > 1) (Counter (map gaia_q neighbors)))"

definition companion_exclusion ::
  "catalogues \<Rightarrow> real option \<Rightarrow> gaia_row list \<Rightarrow> error + gaia_row list" where
  "companion_exclusion cat gaia_comp_check gaia_result =
     (case gaia_comp_check of
        None \<Rightarrow> Inr gaia_result
      | Some radius \<Rightarrow>
          if radius = 0 then Inr gaia_result
          else (case query_region gaia_column (-1) [] (gaia_neighbors cat radius gaia_result) of
                  [] \<Rightarrow> Inl IndexError
                | neighbors # _ \<Rightarrow>
                    if length (removal_list neighbors) > 0
                    then Inr (filter (\<lambda>g. gaia_q g \<notin> set (removal_list neighbors))
                                gaia_result)
                    else Inr gaia_result))"

text \<open>Lines 115 to 123, 137 to 141 and 154 to 162: the tables put together.\<close>

definition first_cross_check_table ::
  "jmmc_row list \<Rightarrow> gaia_row list \<Rightarrow> error + first_row list" where
  "first_cross_check_table jmmc_result gaia_result =
     (case np_take jmmc_result (map (\<lambda>g. gaia_q g - 1) gaia_result) of
        Inl e \<Rightarrow> Inl e
      | Inr jmmc_cols \<Rightarrow> Inr (hstack jmmc_cols (map gaia_cols.truncate gaia_result)))"

definition second_cross_check_table ::
  "first_row list \<Rightarrow> kervella_row list \<Rightarrow> error + second_row list" where
  "second_cross_check_table first_table kervella_result =
     (case np_take first_table (map (\<lambda>k. kervella_q k - 1) kervella_result) of
        Inl e \<Rightarrow> Inl e
      | Inr rows \<Rightarrow> Inr (hstack rows (map kervella_cols.truncate kervella_result)))"

text \<open>
  Line 162, over the reals: the rounding of the floating-point subtraction, which
  matters only at a difference of 0.075 to the last digit, is not part of the model.
\<close>

definition diameters_agree :: "fcct_row \<Rightarrow> bool" where
  "diameters_agree row =
     (\<bar>Diam_GAIA (snd row) - UDDH (fst (fst (fst row)))\<bar> < 0.075
      \<and> \<bar>Diam_GAIA (snd row) - UDDK (fst (fst (fst row)))\<bar> < 0.075)"

definition final_cross_check_table ::
  "second_row list \<Rightarrow> cruzalebes_row list \<Rightarrow> error + fcct_row list" where
  "final_cross_check_table second_table cruzalebes_result =
     (case np_take second_table (map (\<lambda>c. cruzalebes_q c - 1) cruzalebes_result) of
        Inl e \<Rightarrow> Inl e
      | Inr rows \<Rightarrow>
          Inr (filter diameters_agree
                 (hstack rows (map cruzalebes_cols.truncate cruzalebes_result))))"

text \<open>Lines 43 to 162: the table \<open>fcct\<close> that reaches the writer, or the way the run ends before.\<close>

definition cal_finder_table :: "catalogues \<Rightarrow> real option \<Rightarrow> error + fcct_row list" where
  "cal_finder_table cat gaia_comp_check =
     (case simbad_check (simbad_object cat) of
        Inl e \<Rightarrow> Inl e
      | Inr _ \<Rightarrow>
     (case query_region jmmc_column 100 jmmc_filters (jsdc_within_10d cat) of
        [] \<Rightarrow> Inl (Exit NoCalibratorsInJSDC)
      | jmmc_result # _ \<Rightarrow>
     (case query_region gaia_column (conf_row_limit cat) gaia_filters
             (gaia_within_10s cat jmmc_result) of
        [] \<Rightarrow> Inl (Exit NoCalibratorsInGaiaDR3)
      | gaia_result0 # _ \<Rightarrow>
     (case companion_exclusion cat gaia_comp_check gaia_result0 of
        Inl e \<Rightarrow> Inl e
      | Inr gaia_result \<Rightarrow>
     (case first_cross_check_table jmmc_result gaia_result of
        Inl e \<Rightarrow> Inl e
      | Inr first_table \<Rightarrow>
     (case query_region kervella_column (conf_row_limit cat) kervella_filters
             (kervella_within_10s cat gaia_result) of
        [] \<Rightarrow> Inl (Exit NoCalibratorsInKervella)
      | kervella_result # _ \<Rightarrow>
     (case second_cross_check_table first_table kervella_result of
        Inl e \<Rightarrow> Inl e
      | Inr second_table \<Rightarrow>
     (case query_region cruzalebes_column (conf_row_limit cat) cruzalebes_filters
             (mdfc_within_10s cat kervella_result) of
        [] \<Rightarrow> Inl (Exit NoCalibratorsInMDFC)
      | cruzalebes_result # _ \<Rightarrow>
          final_cross_check_table second_table cruzalebes_result))))))))"

text \<open>
  Lines 166 to 181. The file system is a map from file names to tables; \<open>overwrite=True\<close>
  replaces an older file. A table that the writer does not accept ends the run with the
  exception of the writer and leaves the files as they were. The coordinates stay in
  degrees here: their rewriting as sexagesimal text and the comment line of the file
  are left out.
\<close>

datatype summary = Found nat | FoundNone

definition cal_finder ::
  "catalogues \<Rightarrow> string \<Rightarrow> real option \<Rightarrow> (string \<rightharpoonup> fcct_row list)
     \<Rightarrow> (error + summary) \<times> (string \<rightharpoonup> fcct_row list)" where
  "cal_finder cat star_name gaia_comp_check files =
     (case cal_finder_table cat gaia_comp_check of
        Inl e \<Rightarrow> (Inl e, files)
      | Inr fcct \<Rightarrow>
          if writer_accepts cat fcct
          then (Inr (if length fcct > 0 then Found (length fcct) else FoundNone),
                files(star_name @ ''_Calibrators.txt'' \<mapsto> fcct))
          else (Inl WriteFailed, files))"

section \<open>Penalty policies of the stages of \<open>cal_checker\<close>\<close>

text \<open>
  The amounts that the code of each catalogue stage subtracts from \<open>check_pass_count\<close>, in
  the order of the source: lines 236 and 250 (JSDC); 267, 273, 285 and 291 (Gaia DR3);
  309 and 325 (Kervella); 339 and 351 (MDFC). A stage has a hard-fail policy when one of
  its penalties is 5 and a soft-fail policy when one of them is 1; the Gaia and the
  Kervella stage have both.
\<close>

datatype stage = JSDC_stage | Gaia_stage | Kervella_stage | MDFC_stage

definition stage_penalties :: "stage \<Rightarrow> int list" where
  "stage_penalties s =
     (case s of
        JSDC_stage \<Rightarrow> [1, 1]
      | Gaia_stage \<Rightarrow> [1, 5, 1, 5]
      | Kervella_stage \<Rightarrow> [5, 1]
      | MDFC_stage \<Rightarrow> [1, 1])"

definition hard_fail_policy :: "stage \<Rightarrow> bool" where
  "hard_fail_policy s = (5 \<in> set (stage_penalties s))"

definition soft_fail_policy :: "stage \<Rightarrow> bool" where
  "soft_fail_policy s = (1 \<in> set (stage_penalties s))"

definition stages :: "stage list" where
  "stages = [JSDC_stage, Gaia_stage, Kervella_stage, MDFC_stage]"

definition score_lower_bound :: "int \<Rightarrow> int" where
  "score_lower_bound initial_total =
     initial_total - 5 * int (length (filter hard_fail_policy stages))
                   - 1 * int (length (filter soft_fail_policy stages))"

section \<open>Sample catalogue rows\<close>

definition simbad_ok :: simbad_row where
  "simbad_ok = \<lparr>simbad_ra = 10, simbad_dec = 20, simbad_V = 7\<rparr>"

definition jmmc_good :: jmmc_row where
  "jmmc_good = \<lparr>Name = ''HD 1'', jmmc_r = 0, jmmc_RAJ2000 = 10, jmmc_DEJ2000 = 20,
     SpType = ''K0III'', Vmag = 8.5, Rmag = 8, Hmag = 6, Kmag = 5.9, UDDH = 0.3, UDDK = 0.31\<rparr>"

definition gaia_good :: gaia_row where
  "gaia_good = \<lparr>IPDfmp = Some 0, RUWE = Some 1, RVamp = None, Vbroad = Some 50,
     gaia_RAJ2000 = 10, gaia_DEJ2000 = 20, gaia_r = 0, gaia_q = 1\<rparr>"

definition gaia_fast :: gaia_row where
  "gaia_fast = \<lparr>IPDfmp = Some 3, RUWE = Some 2, RVamp = None, Vbroad = Some 150,
     gaia_RAJ2000 = 10, gaia_DEJ2000 = 20, gaia_r = 0, gaia_q = 1\<rparr>"

definition kervella_good :: kervella_row where
  "kervella_good = \<lparr>DMS = 0, W = 0, BinH = 0, BinG2 = 0,
     kervella_RAJ2000 = 10, kervella_DEJ2000 = 20, kervella_Name = ''HD 1'', kervella_q = 1\<rparr>"

definition kervella_binary :: kervella_row where
  "kervella_binary = \<lparr>DMS = 1, W = 0, BinH = 0, BinG2 = 1,
     kervella_RAJ2000 = 10, kervella_DEJ2000 = 20, kervella_Name = ''HD 1'', kervella_q = 1\<rparr>"

definition mdfc_good :: cruzalebes_row where
  "mdfc_good = \<lparr>Diam_GAIA = 0.3, CalFlag = 0, IRflag = 0, cruzalebes_q = 1\<rparr>"

definition start4 :: checker_state where
  "start4 = \<lparr>check_pass_count = 4, printed = []\<rparr>"

definition worst_case :: checker_input where
  "worst_case = \<lparr>simbad_answer = [simbad_ok], jmmc_answer = [],
     gaia_answer = [[gaia_fast, gaia_good]], kervella_answer = [[kervella_binary]],
     cruzalebes_answer = []\<rparr>"

definition all_good :: checker_input where
  "all_good = \<lparr>simbad_answer = [simbad_ok], jmmc_answer = [[jmmc_good]],
     gaia_answer = [[gaia_good]], kervella_answer = [[kervella_good]],
     cruzalebes_answer = [[mdfc_good]]\<rparr>"

definition gaia_no_IPDfmp :: gaia_row where
  "gaia_no_IPDfmp = \<lparr>IPDfmp = None, RUWE = Some 1, RVamp = None, Vbroad = Some 50,
     gaia_RAJ2000 = 10, gaia_DEJ2000 = 20, gaia_r = 0, gaia_q = 1\<rparr>"

definition gaia_no_Vbroad :: gaia_row where
  "gaia_no_Vbroad = \<lparr>IPDfmp = Some 3, RUWE = Some 2, RVamp = None, Vbroad = None,
     gaia_RAJ2000 = 10, gaia_DEJ2000 = 20, gaia_r = 0, gaia_q = 1\<rparr>"

definition jmmc_V9 :: jmmc_row where
  "jmmc_V9 = \<lparr>Name = ''HD 2'', jmmc_r = 0, jmmc_RAJ2000 = 10, jmmc_DEJ2000 = 20,
     SpType = ''K0III'', Vmag = 9, Rmag = 8, Hmag = 6, Kmag = 5.9, UDDH = 0.3, UDDK = 0.31\<rparr>"

definition mdfc_IR1 :: cruzalebes_row where
  "mdfc_IR1 = \<lparr>Diam_GAIA = 0.3, CalFlag = 0, IRflag = 1, cruzalebes_q = 1\<rparr>"

definition not_in_gaia :: checker_input where
  "not_in_gaia = \<lparr>simbad_answer = [simbad_ok], jmmc_answer = [[jmmc_good]],
     gaia_answer = [], kervella_answer = [[kervella_good]],
     cruzalebes_answer = [[mdfc_good]]\<rparr>"

definition only_in_gaia :: checker_input where
  "only_in_gaia = \<lparr>simbad_answer = [simbad_ok], jmmc_answer = [],
     gaia_answer = [[gaia_good]], kervella_answer = [], cruzalebes_answer = []\<rparr>"

section \<open>Provenance of an output row\<close>

text \<open>
  The row that the back-pointers assign to a row \<open>c\<close> of the MDFC table: \<open>_q\<close> of \<open>c\<close>,
  less one, is the place of a row \<open>k\<close> of the Kervella table, \<open>_q\<close> of \<open>k\<close> that of a row
  \<open>g\<close> of the Gaia table, and \<open>_q\<close> of \<open>g\<close> that of a row \<open>j\<close> of the JSDC table.
\<close>

definition traced_row ::
  "jmmc_row list \<Rightarrow> gaia_row list \<Rightarrow> kervella_row list \<Rightarrow> cruzalebes_row \<Rightarrow> fcct_row" where
  "traced_row jmmc_result gaia_result kervella_result c =
     (let k = kervella_result ! nat (cruzalebes_q c - 1);
          g = gaia_result ! nat (kervella_q k - 1);
          j = jmmc_result ! nat (gaia_q g - 1)
      in (((j, gaia_cols.truncate g), kervella_cols.truncate k), cruzalebes_cols.truncate c))"

text \<open>A back-pointer counts the rows of its reference table from 1.\<close>

definition points_into :: "int \<Rightarrow> 'a list \<Rightarrow> bool" where
  "points_into q reference = (1 \<le> q \<and> q \<le> int (length reference))"

section \<open>A sample sky\<close>

text \<open>
  Three JSDC stars around the target. Gaia DR3 has the first and the third within 10
  arcseconds, the Kervella catalogue the third, and MDFC the third, with a diameter
  that agrees with JSDC (\<open>small_sky\<close>) or does not (\<open>discordant_sky\<close>).
\<close>

definition jmmc_second :: jmmc_row where
  "jmmc_second = \<lparr>Name = ''HD 2'', jmmc_r = 1, jmmc_RAJ2000 = 11, jmmc_DEJ2000 = 21,
     SpType = ''G5III'', Vmag = 7, Rmag = 6.5, Hmag = 5, Kmag = 4.9, UDDH = 0.35, UDDK = 0.36\<rparr>"

definition jmmc_third :: jmmc_row where
  "jmmc_third = \<lparr>Name = ''HD 3'', jmmc_r = 2, jmmc_RAJ2000 = 12, jmmc_DEJ2000 = 22,
     SpType = ''K2III'', Vmag = 8, Rmag = 7.5, Hmag = 6.4, Kmag = 6.3, UDDH = 0.2, UDDK = 0.21\<rparr>"

definition gaia_third :: gaia_row where
  "gaia_third = \<lparr>IPDfmp = Some 1, RUWE = Some 1.1, RVamp = None, Vbroad = Some 10,
     gaia_RAJ2000 = 12, gaia_DEJ2000 = 22, gaia_r = 0, gaia_q = 3\<rparr>"

definition kervella_third :: kervella_row where
  "kervella_third = \<lparr>DMS = 0, W = 0, BinH = 0, BinG2 = 0,
     kervella_RAJ2000 = 12, kervella_DEJ2000 = 22, kervella_Name = ''HD 3'', kervella_q = 2\<rparr>"

definition mdfc_third :: cruzalebes_row where
  "mdfc_third = \<lparr>Diam_GAIA = 0.22, CalFlag = 0, IRflag = 0, cruzalebes_q = 1\<rparr>"


definition small_sky :: catalogues where
  "small_sky = \<lparr>simbad_object = [simbad_ok],
     jsdc_within_10d = [jmmc_good, jmmc_second, jmmc_third],
     gaia_within_10s = (\<lambda>reference. if length reference = 3 then [gaia_good, gaia_third] else []),
     gaia_neighbors = (\<lambda>radius reference.
        map (\<lambda>(i, g). g\<lparr>gaia_q := int i + 1\<rparr>) (enumerate 0 reference)),
     kervella_within_10s = (\<lambda>reference. if length reference = 2 then [kervella_third] else []),
     mdfc_within_10s = (\<lambda>reference. if length reference = 1 then [mdfc_third] else []),
     conf_row_limit = 50,
     writer_accepts = (\<lambda>table. table \<noteq> [])\<rparr>"


section \<open>Facts about the stages of \<open>cal_checker\<close>\<close>

lemmas st_defs = say_def say_if_def subtract_def

lemma kervella_fails_iff:
  "kervella_fails r \<longleftrightarrow> DMS r \<noteq> 0 \<or> W r \<noteq> 0 \<or> BinH r \<noteq> 0 \<or> BinG2 r \<noteq> 0"
  by (auto simp: kervella_fails_def or_eq_0_iff)

lemma jmmc_check_count:
  "jmmc_check t st = Inr st' \<Longrightarrow>
     check_pass_count st' = check_pass_count st \<or> check_pass_count st' = check_pass_count st - 1"
  by (auto simp: jmmc_check_def st_defs split: list.splits if_splits)

lemma kervella_check_count:
  "kervella_check t st = Inr st' \<Longrightarrow>
     check_pass_count st' = check_pass_count st \<or> check_pass_count st' = check_pass_count st - 1
     \<or> check_pass_count st' = check_pass_count st - 5"
  by (auto simp: kervella_check_def st_defs split: list.splits if_splits)

lemma cruzalebes_check_count:
  "cruzalebes_check t st = Inr st' \<Longrightarrow>
     check_pass_count st' = check_pass_count st \<or> check_pass_count st' = check_pass_count st - 1"
  by (auto simp: cruzalebes_check_def st_defs split: list.splits if_splits)

lemma gaia_companions_count:
  "check_pass_count (gaia_companions gc tbl st) =
     check_pass_count st - (if gc \<and> length tbl > 1 then 1 else 0)"
  by (simp add: gaia_companions_def st_defs Let_def)

lemma gaia_thresholds_count:
  "check_pass_count (gaia_thresholds r st) \<le> check_pass_count st \<and>
   check_pass_count st - 6 \<le> check_pass_count (gaia_thresholds r st)"
  by (simp add: gaia_thresholds_def st_defs Let_def)

lemma gaia_check_count:
  "gaia_check gc t st = Inr st' \<Longrightarrow>
     check_pass_count st' \<le> check_pass_count st \<and>
     check_pass_count st - (if gc then 7 else 6) \<le> check_pass_count st'"
  using gaia_thresholds_count[of "hd (hd t)" "gaia_companions gc (hd t) st"]
  by (auto simp: gaia_check_def Let_def gaia_companions_count split: list.splits if_splits)

lemma score_lower_bound_eq: "score_lower_bound t = t - 14"
  by (simp add: score_lower_bound_def stages_def hard_fail_policy_def soft_fail_policy_def
      stage_penalties_def)

lemma cal_checker_Inr:
  assumes "cal_checker gc inp = Inr res"
  obtains st1 st2 st3 st4 where
    "jmmc_check (jmmc_answer inp)
       \<lparr>check_pass_count = init_check_pass_count gc, printed = []\<rparr> = Inr st1"
    "gaia_check gc (gaia_answer inp) st1 = Inr st2"
    "kervella_check (kervella_answer inp) st2 = Inr st3"
    "cruzalebes_check (cruzalebes_answer inp) st3 = Inr st4"
    "score res = check_pass_count st4"
    "full_score res = init_check_pass_count gc"
    "outcome res = classify (check_pass_count st4) (init_check_pass_count gc)"
  using assms by (auto simp: cal_checker_def split: sum.splits)

lemma worst_case_run:
  "cal_checker True worst_case =
     Inr \<lparr>score = -9, full_score = 5, outcome = NotViable,
          transcript = [NotFoundInJSDC, CompanionsWarning, CompanionsShown, FailsGaia,
            IPDfmpAbove2, RUWEAbove1_4, VbroadAbove100, FailsKervella, DMSNonzero,
            BinG2Nonzero, NotFoundInMDFC]\<rparr>"
  by (simp add: cal_checker_def worst_case_def simbad_check_def simbad_ok_def jmmc_check_def
      gaia_check_def gaia_companions_def gaia_thresholds_def gaia_fast_def gaia_good_def
      is_masked_def gt_def kervella_check_def kervella_fails_iff kervella_binary_def
      cruzalebes_check_def init_check_pass_count_def classify_def st_defs Let_def)

lemma all_good_run:
  "cal_checker False all_good =
     Inr \<lparr>score = 4, full_score = 4, outcome = Ideal,
          transcript = [PassesJSDC, PassesGaia, PassesKervella, PassesMDFC]\<rparr>"
  by (simp add: cal_checker_def all_good_def simbad_check_def simbad_ok_def jmmc_check_def
      jmmc_good_def gaia_check_def gaia_companions_def gaia_thresholds_def gaia_good_def
      is_masked_def gt_def kervella_check_def kervella_fails_iff kervella_good_def
      cruzalebes_check_def mdfc_good_def init_check_pass_count_def classify_def st_defs
      Let_def)

lemma gaia_thresholds_pass:
  assumes "Vbroad r = Some v"
    and "(\<forall>x. IPDfmp r = Some x \<longrightarrow> x \<le> 2) \<and> (\<forall>y. RUWE r = Some y \<longrightarrow> y \<le> 1.4) \<and> v \<le> 100"
  shows "gaia_thresholds r st = say PassesGaia st"
  using assms by (auto simp: gaia_thresholds_def is_masked_def gt_def split: option.splits)

lemma gaia_thresholds_fail:
  assumes "Vbroad r = Some v"
    and "\<not> ((\<forall>x. IPDfmp r = Some x \<longrightarrow> x \<le> 2) \<and> (\<forall>y. RUWE r = Some y \<longrightarrow> y \<le> 1.4) \<and> v \<le> 100)"
  shows "check_pass_count (gaia_thresholds r st) < check_pass_count st"
  using assms
  by (auto simp: gaia_thresholds_def is_masked_def gt_def st_defs Let_def split: option.splits)

lemma jmmc_check_pass:
  assumes "Vmag r \<le> 9 \<and> Hmag r \<le> 6.4 \<and> UDDH r \<le> 0.5"
  shows "jmmc_check ([r] # tbls) st = Inr (say PassesJSDC st)"
  using assms by (auto simp: jmmc_check_def)

lemma jmmc_check_fail:
  assumes "\<not> (Vmag r \<le> 9 \<and> Hmag r \<le> 6.4 \<and> UDDH r \<le> 0.5)"
  shows "\<exists>st'. jmmc_check ([r] # tbls) st = Inr st'
           \<and> check_pass_count st' = check_pass_count st - 1 \<and> FailsJSDC \<in> set (printed st')"
  using assms by (auto simp: jmmc_check_def st_defs)

lemma cruzalebes_check_pass:
  assumes "CalFlag r = 0 \<and> IRflag r \<noteq> 7"
  shows "cruzalebes_check ([r] # tbls) st = Inr (say PassesMDFC st)"
  using assms by (auto simp: cruzalebes_check_def)

lemma cruzalebes_check_fail:
  assumes "\<not> (CalFlag r = 0 \<and> IRflag r \<noteq> 7)"
  shows "\<exists>st'. cruzalebes_check ([r] # tbls) st = Inr st'
           \<and> check_pass_count st' = check_pass_count st - 1 \<and> FailsMDFC \<in> set (printed st')"
  using assms by (auto simp: cruzalebes_check_def st_defs)

lemma query_region_rows:
  assumes "query_region column limit column_filters found = tbl # rest"
  shows "rest = [] \<and> tbl \<noteq> [] \<and> set tbl \<subseteq> {r \<in> set found. accepts column column_filters r}"
proof -
  let ?rows = "filter (accepts column column_filters) found"
  let ?rows' = "if limit < 0 then ?rows else take (nat limit) ?rows"
  from assms have "?rows' \<noteq> []" and "[?rows'] = tbl # rest"
    by (auto simp: query_region_def Let_def split: if_splits)
  moreover have "set ?rows' \<subseteq> set ?rows"
    by (auto dest: in_set_takeD)
  ultimately show ?thesis by auto
qed

lemma jmmc_accepts_iff:
  "accepts jmmc_column jmmc_filters r
     \<longleftrightarrow> Vmag r < 9 \<and> Hmag r \<le> 6.4 \<and> UDDH r < 0.4 \<and> jmmc_DEJ2000 r > -25"
  by (simp add: accepts_def jmmc_filters_def jmmc_column_def)

lemma cruzalebes_accepts_iff:
  "accepts cruzalebes_column cruzalebes_filters r \<longleftrightarrow> CalFlag r = 0 \<and> IRflag r = 0"
  by (simp add: accepts_def cruzalebes_filters_def cruzalebes_column_def)

section \<open>Facts about the tables of \<open>cal_finder\<close>\<close>

lemma np_index_valid:
  "0 \<le> i \<Longrightarrow> i < int (length xs) \<Longrightarrow> np_index xs i = Inr (xs ! nat i)"
  by (simp add: np_index_def)

lemma np_take_valid:
  "list_all (\<lambda>i. 0 \<le> i \<and> i < int (length xs)) inds
     \<Longrightarrow> np_take xs inds = Inr (map (\<lambda>i. xs ! nat i) inds)"
  by (induction inds) (simp_all add: np_index_valid)

lemma hstack_map: "hstack (map f xs) (map g xs) = map (\<lambda>x. (f x, g x)) xs"
  by (induction xs) (simp_all add: hstack_def)

lemma companion_exclusion_sublist:
  "companion_exclusion cat gc gaia_result0 = Inr gaia_result
     \<Longrightarrow> set gaia_result \<subseteq> set gaia_result0"
  by (auto simp: companion_exclusion_def split: if_splits list.splits option.splits)

lemma first_cross_check_table_valid:
  assumes "list_all (\<lambda>g. points_into (gaia_q g) jmmc_result) gaia_result"
  shows "first_cross_check_table jmmc_result gaia_result
           = Inr (map (\<lambda>g. (jmmc_result ! nat (gaia_q g - 1), gaia_cols.truncate g)) gaia_result)"
proof -
  have "list_all (\<lambda>i. 0 \<le> i \<and> i < int (length jmmc_result))
          (map (\<lambda>g. gaia_q g - 1) gaia_result)"
    using assms by (auto simp: list_all_iff points_into_def)
  from np_take_valid[OF this] show ?thesis
    by (simp add: first_cross_check_table_def hstack_map[symmetric] comp_def)
qed

lemma second_cross_check_table_valid:
  assumes "list_all (\<lambda>k. points_into (kervella_q k) first_table) kervella_result"
  shows "second_cross_check_table first_table kervella_result
           = Inr (map (\<lambda>k. (first_table ! nat (kervella_q k - 1), kervella_cols.truncate k))
                    kervella_result)"
proof -
  have "list_all (\<lambda>i. 0 \<le> i \<and> i < int (length first_table))
          (map (\<lambda>k. kervella_q k - 1) kervella_result)"
    using assms by (auto simp: list_all_iff points_into_def)
  from np_take_valid[OF this] show ?thesis
    by (simp add: second_cross_check_table_def hstack_map[symmetric] comp_def)
qed

lemma final_cross_check_table_valid:
  assumes "list_all (\<lambda>c. points_into (cruzalebes_q c) second_table) cruzalebes_result"
  shows "final_cross_check_table second_table cruzalebes_result
           = Inr (filter diameters_agree
                    (map (\<lambda>c. (second_table ! nat (cruzalebes_q c - 1), cruzalebes_cols.truncate c))
                       cruzalebes_result))"
proof -
  have "list_all (\<lambda>i. 0 \<le> i \<and> i < int (length second_table))
          (map (\<lambda>c. cruzalebes_q c - 1) cruzalebes_result)"
    using assms by (auto simp: list_all_iff points_into_def)
  from np_take_valid[OF this] show ?thesis
    by (simp add: final_cross_check_table_def hstack_map[symmetric] comp_def)
qed

lemma points_into_nth:
  "points_into q reference \<Longrightarrow> nat (q - 1) < length reference"
  by (auto simp: points_into_def)

lemma points_into_length:
  "length xs = length ys \<Longrightarrow> points_into q xs = points_into q ys"
  by (simp add: points_into_def)

lemma cross_check_tables_traced:
  assumes G: "list_all (\<lambda>g. points_into (gaia_q g) jmmc_result) gaia_result"
    and K: "list_all (\<lambda>k. points_into (kervella_q k) gaia_result) kervella_result"
    and C: "list_all (\<lambda>c. points_into (cruzalebes_q c) kervella_result) cruzalebes_result"
  shows "\<exists>first_table second_table.
           first_cross_check_table jmmc_result gaia_result = Inr first_table
         \<and> second_cross_check_table first_table kervella_result = Inr second_table
         \<and> final_cross_check_table second_table cruzalebes_result
             = Inr (filter diameters_agree
                      (map (traced_row jmmc_result gaia_result kervella_result)
                         cruzalebes_result))"
proof -
  let ?f1 = "\<lambda>g. (jmmc_result ! nat (gaia_q g - 1), gaia_cols.truncate g)"
  let ?first = "map ?f1 gaia_result"
  let ?f2 = "\<lambda>k. (?first ! nat (kervella_q k - 1), kervella_cols.truncate k)"
  let ?second = "map ?f2 kervella_result"
  have first: "first_cross_check_table jmmc_result gaia_result = Inr ?first"
    by (rule first_cross_check_table_valid[OF G])
  have K': "list_all (\<lambda>k. points_into (kervella_q k) ?first) kervella_result"
    using K by (simp add: points_into_length[of ?first gaia_result])
  have second: "second_cross_check_table ?first kervella_result = Inr ?second"
    by (rule second_cross_check_table_valid[OF K'])
  have C': "list_all (\<lambda>c. points_into (cruzalebes_q c) ?second) cruzalebes_result"
    using C by (simp add: points_into_length[of ?second kervella_result])
  have final: "final_cross_check_table ?second cruzalebes_result
      = Inr (filter diameters_agree
               (map (\<lambda>c. (?second ! nat (cruzalebes_q c - 1), cruzalebes_cols.truncate c))
                  cruzalebes_result))"
    by (rule final_cross_check_table_valid[OF C'])
  have row: "(?second ! nat (cruzalebes_q c - 1), cruzalebes_cols.truncate c)
      = traced_row jmmc_result gaia_result kervella_result c"
    if c: "c \<in> set cruzalebes_result" for c
  proof -
    from C c have n: "nat (cruzalebes_q c - 1) < length kervella_result"
      by (auto simp: list_all_iff dest: points_into_nth)
    then have "kervella_result ! nat (cruzalebes_q c - 1) \<in> set kervella_result"
      by simp
    with K have m: "nat (kervella_q (kervella_result ! nat (cruzalebes_q c - 1)) - 1)
        < length gaia_result"
      by (auto simp: list_all_iff dest: points_into_nth)
    from n m show ?thesis
      by (simp add: traced_row_def Let_def)
  qed
  have "map (\<lambda>c. (?second ! nat (cruzalebes_q c - 1), cruzalebes_cols.truncate c))
          cruzalebes_result
        = map (traced_row jmmc_result gaia_result kervella_result) cruzalebes_result"
    by (rule map_cong[OF refl row])
  with final have final': "final_cross_check_table ?second cruzalebes_result
      = Inr (filter diameters_agree
               (map (traced_row jmmc_result gaia_result kervella_result) cruzalebes_result))"
    by (simp only:)
  show ?thesis
    by (intro exI[of _ ?first] exI[of _ ?second] conjI first second final')
qed

lemma traced_row_in_tables:
  assumes G: "list_all (\<lambda>g. points_into (gaia_q g) jmmc_result) gaia_result"
    and K: "list_all (\<lambda>k. points_into (kervella_q k) gaia_result) kervella_result"
    and C: "list_all (\<lambda>c. points_into (cruzalebes_q c) kervella_result) cruzalebes_result"
    and c: "c \<in> set cruzalebes_result"
  shows "\<exists>k \<in> set kervella_result. \<exists>g \<in> set gaia_result. \<exists>j \<in> set jmmc_result.
           k = kervella_result ! nat (cruzalebes_q c - 1)
         \<and> g = gaia_result ! nat (kervella_q k - 1)
         \<and> j = jmmc_result ! nat (gaia_q g - 1)
         \<and> traced_row jmmc_result gaia_result kervella_result c
             = (((j, gaia_cols.truncate g), kervella_cols.truncate k), cruzalebes_cols.truncate c)"
proof -
  let ?k = "kervella_result ! nat (cruzalebes_q c - 1)"
  let ?g = "gaia_result ! nat (kervella_q ?k - 1)"
  let ?j = "jmmc_result ! nat (gaia_q ?g - 1)"
  from C c have "nat (cruzalebes_q c - 1) < length kervella_result"
    by (auto simp: list_all_iff dest: points_into_nth)
  then have k: "?k \<in> set kervella_result" by simp
  with K have "nat (kervella_q ?k - 1) < length gaia_result"
    by (auto simp: list_all_iff dest: points_into_nth)
  then have g: "?g \<in> set gaia_result" by simp
  with G have "nat (gaia_q ?g - 1) < length jmmc_result"
    by (auto simp: list_all_iff dest: points_into_nth)
  then have j: "?j \<in> set jmmc_result" by simp
  from k g j show ?thesis
    by (auto simp: traced_row_def Let_def)
qed

section \<open>The sample sky, evaluated\<close>

lemma small_sky_jmmc:
  "query_region jmmc_column 100 jmmc_filters (jsdc_within_10d small_sky)
     = [[jmmc_good, jmmc_second, jmmc_third]]"
  by (simp add: query_region_def small_sky_def jmmc_accepts_iff jmmc_good_def jmmc_second_def
      jmmc_third_def)

lemma gaia_accepts_iff:
  "accepts gaia_column gaia_filters r
     \<longleftrightarrow> (case IPDfmp r of None \<Rightarrow> False | Some a \<Rightarrow> a < 2)
         \<and> (case RUWE r of None \<Rightarrow> False | Some b \<Rightarrow> b < 1.4)
         \<and> (case Vbroad r of None \<Rightarrow> False | Some c \<Rightarrow> c < 100)"
  by (simp add: accepts_def gaia_filters_def gaia_column_def split: option.splits)

lemma kervella_accepts_iff:
  "accepts kervella_column kervella_filters r
     \<longleftrightarrow> DMS r = 0 \<and> W r = 0 \<and> BinH r = 0 \<and> BinG2 r = 0"
  by (simp add: accepts_def kervella_filters_def kervella_column_def)

lemma small_sky_gaia:
  "query_region gaia_column (conf_row_limit small_sky) gaia_filters
     (gaia_within_10s small_sky [jmmc_good, jmmc_second, jmmc_third])
     = [[gaia_good, gaia_third]]"
  by (simp add: query_region_def small_sky_def gaia_accepts_iff gaia_good_def gaia_third_def)

lemma small_sky_companions:
  "companion_exclusion small_sky (Some 5) [gaia_good, gaia_third] = Inr [gaia_good, gaia_third]"
  by (simp add: companion_exclusion_def query_region_def accepts_def small_sky_def
      removal_list_def Counter_def gaia_good_def gaia_third_def)

lemma small_sky_kervella:
  "query_region kervella_column (conf_row_limit small_sky) kervella_filters
     (kervella_within_10s small_sky [gaia_good, gaia_third]) = [[kervella_third]]"
  by (simp add: query_region_def small_sky_def kervella_accepts_iff kervella_third_def)

lemma small_sky_mdfc:
  "query_region cruzalebes_column (conf_row_limit small_sky) cruzalebes_filters
     (mdfc_within_10s small_sky [kervella_third]) = [[mdfc_third]]"
  by (simp add: query_region_def small_sky_def cruzalebes_accepts_iff mdfc_third_def)

lemma small_sky_traced:
  "traced_row [jmmc_good, jmmc_second, jmmc_third] [gaia_good, gaia_third] [kervella_third]
     mdfc_third
   = (((jmmc_third, gaia_cols.truncate gaia_third), kervella_cols.truncate kervella_third),
      cruzalebes_cols.truncate mdfc_third)"
  by (simp add: traced_row_def mdfc_third_def kervella_third_def gaia_third_def)

lemma small_sky_diameters_agree:
  "diameters_agree (((jmmc_third, a), b), cruzalebes_cols.truncate mdfc_third)"
  by (simp add: diameters_agree_def jmmc_third_def mdfc_third_def cruzalebes_cols.truncate_def)

lemma small_sky_simbad: "simbad_check (simbad_object small_sky) = Inr simbad_ok"
  by (simp add: simbad_check_def small_sky_def simbad_ok_def)

lemma small_sky_pointers:
  "list_all (\<lambda>g. points_into (gaia_q g) [jmmc_good, jmmc_second, jmmc_third])
     [gaia_good, gaia_third]"
  "list_all (\<lambda>k. points_into (kervella_q k) [gaia_good, gaia_third]) [kervella_third]"
  "list_all (\<lambda>c. points_into (cruzalebes_q c) [kervella_third]) [mdfc_third]"
  by (simp_all add: points_into_def gaia_good_def gaia_third_def kervella_third_def
      mdfc_third_def)




section \<open>Verified properties\<close>

subsection \<open>Verification mode\<close>

text \<open>
  C6. In verification mode the running score never goes up: every catalogue stage that
  returns leaves \<open>check_pass_count\<close> at or below what it found. The final score is at
  most the initial total and at least the initial total minus 5 for each stage with a
  hard-fail policy minus 1 for each stage with a soft-fail policy, a stage counting under
  each policy its code has (two stages subtract 5 somewhere, all four subtract 1
  somewhere: the bound is the initial total minus 14). Without the companion check the
  score stays at or above the initial total minus 13.
\<close>

theorem score_monotone_and_bounded:
  "(jmmc_check t1 st = Inr st' \<longrightarrow> check_pass_count st' \<le> check_pass_count st)
   \<and> (gaia_check gc t2 st = Inr st' \<longrightarrow> check_pass_count st' \<le> check_pass_count st)
   \<and> (kervella_check t3 st = Inr st' \<longrightarrow> check_pass_count st' \<le> check_pass_count st)
   \<and> (cruzalebes_check t4 st = Inr st' \<longrightarrow> check_pass_count st' \<le> check_pass_count st)
   \<and> (cal_checker gc inp = Inr res \<longrightarrow>
        score res \<le> full_score res \<and> score_lower_bound (full_score res) \<le> score res
        \<and> (gc \<or> full_score res - 13 \<le> score res))"
proof (intro conjI impI)
  assume "jmmc_check t1 st = Inr st'"
  from jmmc_check_count[OF this] show "check_pass_count st' \<le> check_pass_count st" by auto
next
  assume "gaia_check gc t2 st = Inr st'"
  from gaia_check_count[OF this] show "check_pass_count st' \<le> check_pass_count st" by auto
next
  assume "kervella_check t3 st = Inr st'"
  from kervella_check_count[OF this] show "check_pass_count st' \<le> check_pass_count st" by auto
next
  assume "cruzalebes_check t4 st = Inr st'"
  from cruzalebes_check_count[OF this] show "check_pass_count st' \<le> check_pass_count st" by auto
next
  assume run: "cal_checker gc inp = Inr res"
  from run obtain st1 st2 st3 st4 where
    s1: "jmmc_check (jmmc_answer inp)
           \<lparr>check_pass_count = init_check_pass_count gc, printed = []\<rparr> = Inr st1"
    and s2: "gaia_check gc (gaia_answer inp) st1 = Inr st2"
    and s3: "kervella_check (kervella_answer inp) st2 = Inr st3"
    and s4: "cruzalebes_check (cruzalebes_answer inp) st3 = Inr st4"
    and sc: "score res = check_pass_count st4"
    and tot: "full_score res = init_check_pass_count gc"
    by (rule cal_checker_Inr)
  note c1 = jmmc_check_count[OF s1] and c2 = gaia_check_count[OF s2]
    and c3 = kervella_check_count[OF s3] and c4 = cruzalebes_check_count[OF s4]
  from c1 c2 c3 c4 show "score res \<le> full_score res"
    by (auto simp: sc tot)
  from c1 c2 c3 c4 show "score_lower_bound (full_score res) \<le> score res"
    by (auto simp: sc tot score_lower_bound_eq split: if_splits)
  from c1 c2 c3 c4 show "gc \<or> full_score res - 13 \<le> score res"
    by (auto simp: sc tot split: if_splits)
qed

text \<open>
  The bound is reached with the companion check switched on: a star missing from JSDC and
  MDFC, with a Gaia companion, \<open>Vbroad\<close> above 100 and a binarity flag set, ends at
  \<open>5 - 14 = -9\<close>.
\<close>

theorem score_monotone_and_bounded_witness:
  "cal_checker True worst_case =
     Inr \<lparr>score = -9, full_score = 5, outcome = NotViable,
          transcript = [NotFoundInJSDC, CompanionsWarning, CompanionsShown, FailsGaia,
            IPDfmpAbove2, RUWEAbove1_4, VbroadAbove100, FailsKervella, DMSNonzero,
            BinG2Nonzero, NotFoundInMDFC]\<rparr>
   \<and> (-9::int) \<le> 5 \<and> score_lower_bound 5 \<le> -9"
  using score_monotone_and_bounded[of "[]" start4 start4 True "[]" "[]" "[]" worst_case
      "\<lparr>score = -9, full_score = 5, outcome = NotViable,
          transcript = [NotFoundInJSDC, CompanionsWarning, CompanionsShown, FailsGaia,
            IPDfmpAbove2, RUWEAbove1_4, VbroadAbove100, FailsKervella, DMSNonzero,
            BinG2Nonzero, NotFoundInMDFC]\<rparr>"]
    worst_case_run
  by simp

text \<open>
  C8. When \<open>cal_checker\<close> returns, the total is 4, or 5 with the companion check, and the
  star is classified as ideal exactly when score/total is 1, as usable exactly when
  score/total is at least 0.7 and below 1, and as not viable (the branch that recommends
  the JMMC Bad Calibrators Database) otherwise. With these totals ideal means no penalty
  and usable means exactly one point lost.
\<close>

theorem classification:
  assumes "cal_checker gaia_comp_check inp = Inr res"
  shows "full_score res = (if gaia_comp_check then 5 else 4)
    \<and> (outcome res = Ideal \<longleftrightarrow> real_of_int (score res) / real_of_int (full_score res) = 1)
    \<and> (outcome res = Usable \<longleftrightarrow>
          0.7 \<le> real_of_int (score res) / real_of_int (full_score res)
          \<and> real_of_int (score res) / real_of_int (full_score res) < 1)
    \<and> (outcome res = NotViable \<longleftrightarrow>
          \<not> (real_of_int (score res) / real_of_int (full_score res) = 1)
          \<and> \<not> (0.7 \<le> real_of_int (score res) / real_of_int (full_score res)
                \<and> real_of_int (score res) / real_of_int (full_score res) < 1))
    \<and> (outcome res = Ideal \<longleftrightarrow> score res = full_score res)
    \<and> (outcome res = Usable \<longleftrightarrow> score res = full_score res - 1)"
proof -
  from assms obtain st4 :: checker_state where
    sc: "score res = check_pass_count st4"
    and tot: "full_score res = init_check_pass_count gaia_comp_check"
    and out: "outcome res = classify (check_pass_count st4) (init_check_pass_count gaia_comp_check)"
    by (auto elim: cal_checker_Inr)
  show ?thesis
    unfolding sc tot out by (auto simp: classify_def init_check_pass_count_def)
qed

theorem classification_witness:
  "cal_checker False all_good =
     Inr \<lparr>score = 4, full_score = 4, outcome = Ideal,
          transcript = [PassesJSDC, PassesGaia, PassesKervella, PassesMDFC]\<rparr>
   \<and> real_of_int 4 / real_of_int 4 = 1"
  using classification[OF all_good_run] all_good_run by simp

text \<open>
  C2, as the code has it. A masked \<open>Vbroad\<close> is never read as below 100: the row goes to
  the branch of the missing value, which prints the warning and subtracts 5. When
  \<open>Vbroad\<close> is listed, the stage passes exactly when no listed value is above its
  threshold: a masked \<open>IPDfmp\<close> or \<open>RUWE\<close> is left out of the test and does not fail it.
\<close>

theorem masked_cells_in_gaia_check:
  "(Vbroad r = None \<longrightarrow>
      gaia_check gc ([r] # tbls) st = Inr (subtract 5 (say NoVbroadWarning st)))
   \<and> (Vbroad r = Some v \<longrightarrow>
        (gaia_check gc ([r] # tbls) st = Inr (say PassesGaia st)
           \<longleftrightarrow> (\<forall>x. IPDfmp r = Some x \<longrightarrow> x \<le> 2) \<and> (\<forall>y. RUWE r = Some y \<longrightarrow> y \<le> 1.4)
               \<and> v \<le> 100))"
proof (intro conjI impI)
  assume "Vbroad r = None"
  then show "gaia_check gc ([r] # tbls) st = Inr (subtract 5 (say NoVbroadWarning st))"
    by (simp add: gaia_check_def gaia_companions_def gaia_thresholds_def is_masked_def)
next
  assume v: "Vbroad r = Some v"
  have run: "gaia_check gc ([r] # tbls) st = Inr (gaia_thresholds r st)"
    by (simp add: gaia_check_def gaia_companions_def)
  show "gaia_check gc ([r] # tbls) st = Inr (say PassesGaia st)
          \<longleftrightarrow> (\<forall>x. IPDfmp r = Some x \<longrightarrow> x \<le> 2) \<and> (\<forall>y. RUWE r = Some y \<longrightarrow> y \<le> 1.4)
              \<and> v \<le> 100"
  proof
    assume "gaia_check gc ([r] # tbls) st = Inr (say PassesGaia st)"
    then have eq: "gaia_thresholds r st = say PassesGaia st"
      by (simp add: run)
    have "\<not> check_pass_count (gaia_thresholds r st) < check_pass_count st"
      by (simp add: eq say_def)
    with gaia_thresholds_fail[OF v, of st]
    show "(\<forall>x. IPDfmp r = Some x \<longrightarrow> x \<le> 2) \<and> (\<forall>y. RUWE r = Some y \<longrightarrow> y \<le> 1.4) \<and> v \<le> 100"
      by blast
  next
    assume "(\<forall>x. IPDfmp r = Some x \<longrightarrow> x \<le> 2) \<and> (\<forall>y. RUWE r = Some y \<longrightarrow> y \<le> 1.4) \<and> v \<le> 100"
    from gaia_thresholds_pass[OF v this, of st]
    show "gaia_check gc ([r] # tbls) st = Inr (say PassesGaia st)"
      by (simp add: run)
  qed
qed

theorem masked_cells_in_gaia_check_witness:
  "Vbroad gaia_no_Vbroad = None
   \<and> gaia_check False [[gaia_no_Vbroad]] start4
       = Inr \<lparr>check_pass_count = -1, printed = [NoVbroadWarning]\<rparr>
   \<and> Vbroad gaia_good = Some 50
   \<and> gaia_check False [[gaia_good]] start4
       = Inr \<lparr>check_pass_count = 4, printed = [PassesGaia]\<rparr>"
  using masked_cells_in_gaia_check[where r = gaia_no_Vbroad and gc = False and tbls = "[]"
      and st = start4]
    masked_cells_in_gaia_check[where r = gaia_good and gc = False and tbls = "[]"
      and st = start4 and v = 50]
  by (simp add: gaia_no_Vbroad_def gaia_good_def start4_def st_defs)

text \<open>
  The claim as stated fails on a row whose \<open>IPDfmp\<close> is masked and whose other values are
  in range: the stage reports a pass and subtracts nothing.
\<close>

theorem masked_IPDfmp_counterexample:
  "IPDfmp gaia_no_IPDfmp = None
   \<and> gaia_check False [[gaia_no_IPDfmp]] start4
       = Inr \<lparr>check_pass_count = 4, printed = [PassesGaia]\<rparr>"
  by (simp add: gaia_no_IPDfmp_def start4_def gaia_check_def gaia_companions_def
      gaia_thresholds_def is_masked_def gt_def st_defs)

text \<open>
  C9. When the \<open>Vbroad\<close> of the first Gaia row is masked, the thresholds of the stage are
  not evaluated: after the companion check of lines 264 to 269 the score goes down by
  exactly 5, no failure of the Gaia checks is reported, and the result is the same
  whatever \<open>IPDfmp\<close> and \<open>RUWE\<close> are.
\<close>

theorem masked_Vbroad_skips_thresholds:
  assumes "Vbroad r = None"
  shows "gaia_check gc ((r # rest) # tbls) st
           = Inr (subtract 5 (say NoVbroadWarning (gaia_companions gc (r # rest) st)))
    \<and> check_pass_count (subtract 5 (say NoVbroadWarning (gaia_companions gc (r # rest) st)))
        = check_pass_count st - (if gc \<and> rest \<noteq> [] then 1 else 0) - 5
    \<and> gaia_check gc ((r\<lparr>IPDfmp := x, RUWE := y\<rparr> # rest) # tbls) st
        = gaia_check gc ((r # rest) # tbls) st"
  using assms
  by (simp add: gaia_check_def gaia_companions_def gaia_thresholds_def is_masked_def
      st_defs Let_def)

theorem masked_Vbroad_skips_thresholds_witness:
  "Vbroad gaia_no_Vbroad = None
   \<and> gaia_check True [[gaia_no_Vbroad]] start4
       = Inr \<lparr>check_pass_count = -1, printed = [NoVbroadWarning]\<rparr>
   \<and> gaia_check True [[gaia_no_Vbroad\<lparr>IPDfmp := Some 0, RUWE := Some 1\<rparr>]] start4
       = gaia_check True [[gaia_no_Vbroad]] start4"
  using masked_Vbroad_skips_thresholds[where r = gaia_no_Vbroad and gc = True and rest = "[]"
      and tbls = "[]" and st = start4 and x = "Some 0" and y = "Some 1"]
  by (simp add: gaia_no_Vbroad_def start4_def gaia_companions_def st_defs)

text \<open>
  C3, as the code has it. An empty answer of JSDC, of the Kervella catalogue or of MDFC
  costs exactly one point and the run goes on: with all three empty and the star in
  Gaia DR3 the run still ends with a classification. An empty answer of Gaia DR3 ends
  the run at line 260, whatever the other catalogues answer.
\<close>

theorem empty_catalogue_results:
  "jmmc_check [] st = Inr (subtract 1 (say NotFoundInJSDC st))
   \<and> kervella_check [] st = Inr (subtract 1 (say NotFoundInKervella st))
   \<and> cruzalebes_check [] st = Inr (subtract 1 (say NotFoundInMDFC st))
   \<and> gaia_check gc [] st = Inl (Exit NotFoundInGaiaDR3)
   \<and> (simbad_check (simbad_answer inp) = Inr s \<and> jmmc_answer inp = []
        \<and> gaia_answer inp = (r # rest) # tbls
        \<and> kervella_answer inp = [] \<and> cruzalebes_answer inp = []
      \<longrightarrow> (\<exists>res. cal_checker gc inp = Inr res
             \<and> score res = check_pass_count (gaia_thresholds r (gaia_companions gc (r # rest)
                  \<lparr>check_pass_count = init_check_pass_count gc - 1,
                    printed = [NotFoundInJSDC]\<rparr>)) - 2))
   \<and> (simbad_check (simbad_answer inp) = Inr s \<and> jmmc_check (jmmc_answer inp)
          \<lparr>check_pass_count = init_check_pass_count gc, printed = []\<rparr> = Inr st1
        \<and> gaia_answer inp = []
      \<longrightarrow> cal_checker gc inp = Inl (Exit NotFoundInGaiaDR3))"
  by (simp add: jmmc_check_def kervella_check_def cruzalebes_check_def gaia_check_def
      cal_checker_def st_defs Let_def)

theorem empty_catalogue_results_witness:
  "simbad_check (simbad_answer only_in_gaia) = Inr simbad_ok
   \<and> (\<exists>res. cal_checker False only_in_gaia = Inr res \<and> score res = 1)"
  using empty_catalogue_results[of start4 False only_in_gaia simbad_ok gaia_good "[]" "[]" start4]
  by (simp add: only_in_gaia_def simbad_check_def simbad_ok_def gaia_good_def
      gaia_companions_def gaia_thresholds_def is_masked_def gt_def init_check_pass_count_def
      st_defs)

text \<open>
  The claim as stated fails at the Gaia stage: a star that SIMBAD and the three other
  catalogues know, and Gaia DR3 does not, ends the run without a score.
\<close>

theorem empty_gaia_counterexample:
  "cal_checker False not_in_gaia = Inl (Exit NotFoundInGaiaDR3)"
  by (simp add: cal_checker_def not_in_gaia_def simbad_check_def simbad_ok_def jmmc_check_def
      jmmc_good_def gaia_check_def init_check_pass_count_def st_defs)

text \<open>
  C7, as the code has it. In discovery mode the JSDC query carries the filters
  \<open>Vmag < 9.0\<close>, \<open>Hmag <= 6.4\<close>, \<open>UDDH < 0.4\<close> and, with them, \<open>_DEJ2000 > -25\<close>: every
  row of the table it returns meets all four. In verification mode the JSDC check of a
  star passes exactly when \<open>Vmag <= 9\<close>, \<open>Hmag <= 6.4\<close> and \<open>UDDH <= 0.5\<close> (it fails only
  above a limit, so a V magnitude of exactly 9 passes), and costs one point otherwise.
\<close>

theorem jsdc_stage_predicate:
  "(accepts jmmc_column jmmc_filters r
      \<longleftrightarrow> Vmag r < 9.0 \<and> Hmag r \<le> 6.4 \<and> UDDH r < 0.4 \<and> jmmc_DEJ2000 r > -25)
   \<and> (query_region jmmc_column 100 jmmc_filters found = tbl # rest \<longrightarrow>
        (\<forall>row \<in> set tbl. Vmag row < 9.0 \<and> Hmag row \<le> 6.4 \<and> UDDH row < 0.4
                           \<and> jmmc_DEJ2000 row > -25))
   \<and> (jmmc_check ([r] # tbls) st = Inr (say PassesJSDC st)
        \<longleftrightarrow> Vmag r \<le> 9.0 \<and> Hmag r \<le> 6.4 \<and> UDDH r \<le> 0.5)
   \<and> (\<not> (Vmag r \<le> 9.0 \<and> Hmag r \<le> 6.4 \<and> UDDH r \<le> 0.5) \<longrightarrow>
        (\<exists>st'. jmmc_check ([r] # tbls) st = Inr st'
           \<and> check_pass_count st' = check_pass_count st - 1))"
proof (intro conjI impI)
  show "accepts jmmc_column jmmc_filters r
      \<longleftrightarrow> Vmag r < 9.0 \<and> Hmag r \<le> 6.4 \<and> UDDH r < 0.4 \<and> jmmc_DEJ2000 r > -25"
    by (simp add: jmmc_accepts_iff)
next
  assume "query_region jmmc_column 100 jmmc_filters found = tbl # rest"
  from query_region_rows[OF this]
  show "\<forall>row \<in> set tbl. Vmag row < 9.0 \<and> Hmag row \<le> 6.4 \<and> UDDH row < 0.4
                           \<and> jmmc_DEJ2000 row > -25"
    by (auto simp: jmmc_accepts_iff)
next
  show "jmmc_check ([r] # tbls) st = Inr (say PassesJSDC st)
        \<longleftrightarrow> Vmag r \<le> 9.0 \<and> Hmag r \<le> 6.4 \<and> UDDH r \<le> 0.5"
  proof
    assume pass: "jmmc_check ([r] # tbls) st = Inr (say PassesJSDC st)"
    show "Vmag r \<le> 9.0 \<and> Hmag r \<le> 6.4 \<and> UDDH r \<le> 0.5"
    proof (rule ccontr)
      assume "\<not> (Vmag r \<le> 9.0 \<and> Hmag r \<le> 6.4 \<and> UDDH r \<le> 0.5)"
      then have "\<not> (Vmag r \<le> 9 \<and> Hmag r \<le> 6.4 \<and> UDDH r \<le> 0.5)" by simp
      from jmmc_check_fail[OF this, of tbls st] pass show False
        by (auto simp: say_def)
    qed
  next
    assume "Vmag r \<le> 9.0 \<and> Hmag r \<le> 6.4 \<and> UDDH r \<le> 0.5"
    then have "Vmag r \<le> 9 \<and> Hmag r \<le> 6.4 \<and> UDDH r \<le> 0.5" by simp
    from jmmc_check_pass[OF this]
    show "jmmc_check ([r] # tbls) st = Inr (say PassesJSDC st)" .
  qed
next
  assume "\<not> (Vmag r \<le> 9.0 \<and> Hmag r \<le> 6.4 \<and> UDDH r \<le> 0.5)"
  then have "\<not> (Vmag r \<le> 9 \<and> Hmag r \<le> 6.4 \<and> UDDH r \<le> 0.5)" by simp
  from jmmc_check_fail[OF this, of tbls st]
  show "\<exists>st'. jmmc_check ([r] # tbls) st = Inr st'
           \<and> check_pass_count st' = check_pass_count st - 1"
    by blast
qed

theorem jsdc_stage_predicate_witness:
  "query_region jmmc_column 100 jmmc_filters [jmmc_V9, jmmc_good] = [[jmmc_good]]
   \<and> accepts jmmc_column jmmc_filters jmmc_good
   \<and> jmmc_check [[jmmc_good]] start4 = Inr (say PassesJSDC start4)"
  using jsdc_stage_predicate[of jmmc_good "[jmmc_V9, jmmc_good]" "[jmmc_good]" "[]" "[]" start4]
  by (simp add: query_region_def jmmc_accepts_iff jmmc_good_def jmmc_V9_def)

text \<open>
  The claim as stated fails in verification mode at a V magnitude of exactly 9: the
  claimed predicate is false there and the check passes, with nothing subtracted.
\<close>

theorem Vmag_9_counterexample:
  "jmmc_check [[jmmc_V9]] start4 = Inr \<lparr>check_pass_count = 4, printed = [PassesJSDC]\<rparr>
   \<and> \<not> (Vmag jmmc_V9 < 9.0 \<and> Hmag jmmc_V9 \<le> 6.4 \<and> UDDH jmmc_V9 \<le> 0.5)"
  by (simp add: jmmc_check_def jmmc_V9_def start4_def st_defs)

text \<open>
  C5, as the code has it. In verification mode the MDFC check of a star passes exactly
  when \<open>CalFlag\<close> is 0 and \<open>IRflag\<close> is not 7, and costs one point otherwise. In discovery
  mode the MDFC query carries the filters \<open>CalFlag = 0\<close> and \<open>IRflag = 0\<close>: every row of the
  table it returns has both flags 0.
\<close>

theorem mdfc_stage_predicate:
  "(cruzalebes_check ([r] # tbls) st = Inr (say PassesMDFC st)
      \<longleftrightarrow> CalFlag r = 0 \<and> IRflag r \<noteq> 7)
   \<and> (\<not> (CalFlag r = 0 \<and> IRflag r \<noteq> 7) \<longrightarrow>
        (\<exists>st'. cruzalebes_check ([r] # tbls) st = Inr st'
           \<and> check_pass_count st' = check_pass_count st - 1))
   \<and> (accepts cruzalebes_column cruzalebes_filters r \<longleftrightarrow> CalFlag r = 0 \<and> IRflag r = 0)
   \<and> (query_region cruzalebes_column limit cruzalebes_filters found = tbl # rest \<longrightarrow>
        (\<forall>row \<in> set tbl. CalFlag row = 0 \<and> IRflag row = 0))"
proof (intro conjI impI)
  show "cruzalebes_check ([r] # tbls) st = Inr (say PassesMDFC st)
      \<longleftrightarrow> CalFlag r = 0 \<and> IRflag r \<noteq> 7"
  proof
    assume pass: "cruzalebes_check ([r] # tbls) st = Inr (say PassesMDFC st)"
    show "CalFlag r = 0 \<and> IRflag r \<noteq> 7"
    proof (rule ccontr)
      assume "\<not> (CalFlag r = 0 \<and> IRflag r \<noteq> 7)"
      from cruzalebes_check_fail[OF this, of tbls st] pass show False
        by (auto simp: say_def)
    qed
  next
    assume "CalFlag r = 0 \<and> IRflag r \<noteq> 7"
    from cruzalebes_check_pass[OF this]
    show "cruzalebes_check ([r] # tbls) st = Inr (say PassesMDFC st)" .
  qed
next
  assume "\<not> (CalFlag r = 0 \<and> IRflag r \<noteq> 7)"
  from cruzalebes_check_fail[OF this, of tbls st]
  show "\<exists>st'. cruzalebes_check ([r] # tbls) st = Inr st'
           \<and> check_pass_count st' = check_pass_count st - 1"
    by blast
next
  show "accepts cruzalebes_column cruzalebes_filters r \<longleftrightarrow> CalFlag r = 0 \<and> IRflag r = 0"
    by (simp add: cruzalebes_accepts_iff)
next
  assume "query_region cruzalebes_column limit cruzalebes_filters found = tbl # rest"
  from query_region_rows[OF this]
  show "\<forall>row \<in> set tbl. CalFlag row = 0 \<and> IRflag row = 0"
    by (auto simp: cruzalebes_accepts_iff)
qed

theorem mdfc_stage_predicate_witness:
  "query_region cruzalebes_column 50 cruzalebes_filters [mdfc_IR1, mdfc_good] = [[mdfc_good]]
   \<and> cruzalebes_check [[mdfc_IR1]] start4 = Inr (say PassesMDFC start4)
   \<and> \<not> accepts cruzalebes_column cruzalebes_filters mdfc_IR1"
  using mdfc_stage_predicate[of mdfc_IR1 "[]" start4 50 "[mdfc_IR1, mdfc_good]" "[mdfc_good]" "[]"]
  by (simp add: query_region_def cruzalebes_accepts_iff mdfc_good_def mdfc_IR1_def)

text \<open>
  The claim as stated fails in discovery mode on a record with \<open>CalFlag = 0\<close> and
  \<open>IRflag = 1\<close>: the claimed predicate holds and the query filters reject the record.
\<close>

theorem IRflag_1_counterexample:
  "CalFlag mdfc_IR1 = 0 \<and> IRflag mdfc_IR1 \<noteq> 7
   \<and> \<not> accepts cruzalebes_column cruzalebes_filters mdfc_IR1
   \<and> query_region cruzalebes_column 50 cruzalebes_filters [mdfc_IR1] = []"
  by (simp add: query_region_def accepts_def cruzalebes_filters_def cruzalebes_column_def
      mdfc_IR1_def)

subsection \<open>Discovery mode\<close>

text \<open>
  C1. Take a run of discovery mode in which every stage returns a table, and let every
  back-pointer \<open>_q\<close> that a catalogue reports be a place, counted from 1, in the table that
  was sent as reference. Then the table operations raise no error, and the output table
  consists of the rows traced from the rows of the MDFC table that pass the diameter
  test: each output row is put together from one MDFC row \<open>c\<close>, the Kervella row at
  place \<open>_q - 1\<close> of \<open>c\<close>, the Gaia row at place \<open>_q - 1\<close> of that one, among the rows left
  by the companion exclusion, and the JSDC row at place \<open>_q - 1\<close> of that one, a row of
  the table that the first stage returned.
\<close>

theorem provenance_chain:
  assumes "simbad_check (simbad_object cat) = Inr s"
    and "query_region jmmc_column 100 jmmc_filters (jsdc_within_10d cat) = jmmc_result # Js"
    and "query_region gaia_column (conf_row_limit cat) gaia_filters
           (gaia_within_10s cat jmmc_result) = gaia_result0 # Gs"
    and "companion_exclusion cat gaia_comp_check gaia_result0 = Inr gaia_result"
    and "query_region kervella_column (conf_row_limit cat) kervella_filters
           (kervella_within_10s cat gaia_result) = kervella_result # Ks"
    and "query_region cruzalebes_column (conf_row_limit cat) cruzalebes_filters
           (mdfc_within_10s cat kervella_result) = cruzalebes_result # Cs"
    and "list_all (\<lambda>g. points_into (gaia_q g) jmmc_result) gaia_result0"
    and "list_all (\<lambda>k. points_into (kervella_q k) gaia_result) kervella_result"
    and "list_all (\<lambda>c. points_into (cruzalebes_q c) kervella_result) cruzalebes_result"
  shows "cal_finder_table cat gaia_comp_check
           = Inr (filter diameters_agree
                    (map (traced_row jmmc_result gaia_result kervella_result) cruzalebes_result))
    \<and> (\<forall>c \<in> set cruzalebes_result.
          \<exists>k \<in> set kervella_result. \<exists>g \<in> set gaia_result0. \<exists>j \<in> set jmmc_result.
             k = kervella_result ! nat (cruzalebes_q c - 1)
           \<and> g = gaia_result ! nat (kervella_q k - 1)
           \<and> j = jmmc_result ! nat (gaia_q g - 1)
           \<and> traced_row jmmc_result gaia_result kervella_result c
               = (((j, gaia_cols.truncate g), kervella_cols.truncate k),
                  cruzalebes_cols.truncate c))"
proof
  have sub: "set gaia_result \<subseteq> set gaia_result0"
    by (rule companion_exclusion_sublist[OF assms(4)])
  with assms(7) have G: "list_all (\<lambda>g. points_into (gaia_q g) jmmc_result) gaia_result"
    by (auto simp: list_all_iff)
  from cross_check_tables_traced[OF G assms(8) assms(9)]
  obtain first_table second_table where
    "first_cross_check_table jmmc_result gaia_result = Inr first_table"
    "second_cross_check_table first_table kervella_result = Inr second_table"
    "final_cross_check_table second_table cruzalebes_result
       = Inr (filter diameters_agree
                (map (traced_row jmmc_result gaia_result kervella_result) cruzalebes_result))"
    by blast
  with assms(1-6)
  show "cal_finder_table cat gaia_comp_check
           = Inr (filter diameters_agree
                    (map (traced_row jmmc_result gaia_result kervella_result) cruzalebes_result))"
    by (simp add: cal_finder_table_def)
  show "\<forall>c \<in> set cruzalebes_result.
          \<exists>k \<in> set kervella_result. \<exists>g \<in> set gaia_result0. \<exists>j \<in> set jmmc_result.
             k = kervella_result ! nat (cruzalebes_q c - 1)
           \<and> g = gaia_result ! nat (kervella_q k - 1)
           \<and> j = jmmc_result ! nat (gaia_q g - 1)
           \<and> traced_row jmmc_result gaia_result kervella_result c
               = (((j, gaia_cols.truncate g), kervella_cols.truncate k),
                  cruzalebes_cols.truncate c)"
  proof
    fix c assume "c \<in> set cruzalebes_result"
    from traced_row_in_tables[OF G assms(8) assms(9) this] sub
    show "\<exists>k \<in> set kervella_result. \<exists>g \<in> set gaia_result0. \<exists>j \<in> set jmmc_result.
             k = kervella_result ! nat (cruzalebes_q c - 1)
           \<and> g = gaia_result ! nat (kervella_q k - 1)
           \<and> j = jmmc_result ! nat (gaia_q g - 1)
           \<and> traced_row jmmc_result gaia_result kervella_result c
               = (((j, gaia_cols.truncate g), kervella_cols.truncate k),
                  cruzalebes_cols.truncate c)"
      by blast
  qed
qed

theorem provenance_chain_witness:
  "cal_finder_table small_sky (Some 5)
     = Inr [(((jmmc_third, gaia_cols.truncate gaia_third), kervella_cols.truncate kervella_third),
             cruzalebes_cols.truncate mdfc_third)]"
  using provenance_chain[OF small_sky_simbad small_sky_jmmc small_sky_gaia small_sky_companions
      small_sky_kervella small_sky_mdfc small_sky_pointers]
  by (simp add: small_sky_traced small_sky_diameters_agree)



text \<open>
  C10. A radius of 0 is false as a condition, so line 100 skips the companion query:
  the run is the one without the parameter, the Gaia table is passed on as it is, and
  nothing depends on what the companion query would have answered.
\<close>

theorem zero_radius_disables_companion_exclusion:
  "cal_finder cat star_name (Some 0) files = cal_finder cat star_name None files
   \<and> cal_finder (cat\<lparr>gaia_neighbors := other\<rparr>) star_name (Some 0) files
       = cal_finder cat star_name None files
   \<and> companion_exclusion cat (Some 0) gaia_result = Inr gaia_result"
proof -
  have skip: "companion_exclusion c (Some 0) g = Inr g"
    and none: "companion_exclusion c None g = Inr g" for c g
    by (simp_all add: companion_exclusion_def)
  have "cal_finder_table (cat\<lparr>gaia_neighbors := other\<rparr>) (Some 0) = cal_finder_table cat None"
    and "cal_finder_table cat (Some 0) = cal_finder_table cat None"
    by (simp_all add: cal_finder_table_def skip none cong: list.case_cong sum.case_cong)
  then show ?thesis
    by (simp add: cal_finder_def skip cong: sum.case_cong)
qed

theorem zero_radius_disables_companion_exclusion_witness:
  "cal_finder small_sky ''HD 1234'' (Some 0) Map.empty
     = cal_finder small_sky ''HD 1234'' None Map.empty
   \<and> companion_exclusion small_sky (Some 0) [gaia_good, gaia_third]
       = Inr [gaia_good, gaia_third]"
  using zero_radius_disables_companion_exclusion[where cat = small_sky
      and star_name = "''HD 1234''" and files = Map.empty
      and gaia_result = "[gaia_good, gaia_third]"]
  by simp

end
